theory Spec2Isabelle
  imports Complex_Main "HOL-Library.Monad_Syntax"
begin

section \<open>Negative-carrier generator for the Beseler 23C (genCarrier.py)\<close>

text \<open>
  The program computes the outlines of a three-layer film carrier and writes them as SVG
  documents. This theory embeds its geometry and layer assembly.

  Conventions of the embedding.
  \<^item> A Python \<^verbatim>\<open>float\<close> is a \<^typ>\<open>real\<close>; \<^verbatim>\<open>math.cos\<close>, \<^verbatim>\<open>math.sin\<close>,
    \<^verbatim>\<open>math.tan\<close>, \<^verbatim>\<open>math.sqrt\<close> and \<^verbatim>\<open>math.pi\<close> are the functions and the constant
    of real analysis. Rounding is not part of the model: every equation below is one of
    exact arithmetic. Neither are the infinities and NaN of the doubles: a quotient too
    large for a double, on which \<^verbatim>\<open>int\<close> raises, does not occur in the model. For the
    angles the program itself passes to \<^verbatim>\<open>drawArc\<close> the segment counts of the model are
    those of the doubles.
  \<^item> A Python exception is the value \<open>None\<close> of an option type. The arithmetic that can
    raise on the values the program computes (a division by a computed divisor,
    \<^verbatim>\<open>math.asin\<close> outside its domain) is written with \<open>py_div\<close> and \<open>py_asin\<close>.
  \<^item> The SVG text the program concatenates is kept structured. A path string is a list of
    drawing commands: \<^verbatim>\<open>" M%f,%f" % (x, y)\<close> is \<open>MoveTo x y\<close>, \<^verbatim>\<open>" L%f,%f"\<close> is
    \<open>LineTo\<close>, \<^verbatim>\<open>" l%f,0"\<close> is \<open>RelLineTo\<close> and \<^verbatim>\<open>"z"\<close> is \<open>ClosePath\<close>. A document
    string is a list of nodes: the header, a comment line (its format string and the
    numbers it is applied to), a \<^verbatim>\<open><path .../>\<close> element, the footer. String
    concatenation \<^verbatim>\<open>+=\<close> is list append.
  \<^item> The file system is a map from file names to documents; \<^verbatim>\<open>open(name, "w")\<close> followed
    by \<^verbatim>\<open>write\<close> stores the document under the name. Failures of the file system itself
    are outside the model.
\<close>

subsection \<open>Data\<close>

type_synonym point = "real \<times> real"

datatype cmd =
    MoveTo real real
  | LineTo real real
  | RelLineTo real real
  | ClosePath

datatype node =
    Header real real real real real real
  | Comment string "real list"
  | PathEl "cmd list"
  | Footer

type_synonym files = "string \<rightharpoonup> node list"

subsection \<open>Python arithmetic that can raise\<close>

definition py_div :: "real \<Rightarrow> real \<Rightarrow> real option" where
  "py_div a b = (if b = 0 then None else Some (a / b))"

definition py_int :: "real \<Rightarrow> int" where
  "py_int x = (if 0 \<le> x then \<lfloor>x\<rfloor> else \<lceil>x\<rceil>)"

definition py_asin :: "real \<Rightarrow> real option" where
  "py_asin x = (if - 1 \<le> x \<and> x \<le> 1 then Some (arcsin x) else None)"

subsection \<open>Parameters of the paddle, the same for every film size\<close>

definition img_width :: real where "img_width = 8.6"
definition img_height :: real where "img_height = 6.5"

definition large_diam :: real where "large_diam = 6.375"
definition large_rad :: real where "large_rad = large_diam / 2.0"

definition handle_width :: real where "handle_width = 1.135"
definition handle_length :: real where "handle_length = 8.450 - large_diam"
definition aligner_gap :: real where "aligner_gap = 0.005"

definition ring_diam :: real where "ring_diam = 4.725"

definition handle_fillet :: real where "handle_fillet = 0.750"

definition handle_rad :: real where "handle_rad = 0.150"

definition x_center :: real where "x_center = img_height / 2.0"
definition y_center :: real where "y_center = x_center"

subsection \<open>Header and footer\<close>

text \<open>The character \<^verbatim>\<open>"\<close>, which the comment formats use as the inch mark.\<close>

definition inch_mark :: string where
  "inch_mark = [CHR 0x22]"

definition makeHeader :: "node list" where
  "makeHeader = [Header img_width img_height 0.0 0.0 img_width img_height]"

definition makeFooter :: "node list" where
  "makeFooter = [Footer]"

subsection \<open>drawArc\<close>

text \<open>
  The point of the circle at an angle: the expression the source writes for both
  \<^verbatim>\<open>point0\<close> and \<^verbatim>\<open>point1\<close>.
\<close>

definition arcPoint :: "point \<Rightarrow> real \<Rightarrow> real \<Rightarrow> point" where
  "arcPoint center rad theta = (fst center + cos theta * rad, snd center + sin theta * rad)"

text \<open>The body of the loop of \<^verbatim>\<open>drawArc\<close> at index \<open>i\<close>: what it appends to the path.\<close>

definition arcStep :: "point \<Rightarrow> real \<Rightarrow> real \<Rightarrow> real \<Rightarrow> bool \<Rightarrow> nat \<Rightarrow> cmd list" where
  "arcStep center rad theta0 dtheta moveTo i =
     (let theta_i = theta0 + real i * dtheta;
          theta_i1 = theta_i + dtheta
      in (if i = 0 \<and> moveTo
          then (let point0 = arcPoint center rad theta_i in [MoveTo (fst point0) (snd point0)])
          else []) @
         (let point1 = arcPoint center rad theta_i1 in [LineTo (fst point1) (snd point1)]))"

text \<open>The loop \<^verbatim>\<open>for i in range(0, num_segments)\<close>: the path after \<open>n\<close> iterations.\<close>

primrec arcLoop :: "point \<Rightarrow> real \<Rightarrow> real \<Rightarrow> real \<Rightarrow> bool \<Rightarrow> nat \<Rightarrow> cmd list" where
  "arcLoop center rad theta0 dtheta moveTo 0 = []"
| "arcLoop center rad theta0 dtheta moveTo (Suc i) =
     arcLoop center rad theta0 dtheta moveTo i @ arcStep center rad theta0 dtheta moveTo i"

text \<open>
  The first three statements of \<^verbatim>\<open>drawArc\<close>: the segment count
  \<^verbatim>\<open>1+int(abs(theta1-theta0)/dtheta)\<close> for the half-degree step, and the step recomputed
  from it.
\<close>

definition num_segments :: "real \<Rightarrow> real \<Rightarrow> int option" where
  "num_segments theta0 theta1 = do {
     let one_degree = (2.0 * pi) / 360.0;
     let dtheta = one_degree * 0.5;
     q \<leftarrow> py_div \<bar>theta1 - theta0\<bar> dtheta;
     Some (1 + py_int q)
   }"

definition dtheta :: "real \<Rightarrow> real \<Rightarrow> real option" where
  "dtheta theta0 theta1 = do {
     n \<leftarrow> num_segments theta0 theta1;
     py_div (theta1 - theta0) (real_of_int n)
   }"

definition drawArc :: "point \<Rightarrow> real \<Rightarrow> real \<Rightarrow> real \<Rightarrow> bool \<Rightarrow> cmd list option" where
  "drawArc center rad theta0 theta1 moveTo = do {
     n \<leftarrow> num_segments theta0 theta1;
     d \<leftarrow> dtheta theta0 theta1;
     Some (arcLoop center rad theta0 d moveTo (nat n))
   }"

subsection \<open>drawRect\<close>

definition drawRect :: "point \<Rightarrow> real \<Rightarrow> real \<Rightarrow> cmd list" where
  "drawRect p width height =
     [MoveTo (fst p) (snd p),
      LineTo (fst p + width) (snd p),
      LineTo (fst p + width) (snd p + height),
      LineTo (fst p) (snd p + height),
      LineTo (fst p) (snd p)]"

subsection \<open>Shapes\<close>

definition makePaddleOutline :: "node list option" where
  "makePaddleOutline = do {
     let s = [Comment ''Paddle outline'' []];
     let handle_angle = tan (handle_width / large_diam);
     handle_theta0 \<leftarrow> py_asin ((handle_width / 2 + handle_fillet) / (large_rad + handle_fillet));
     let handle_theta1 = pi / 2 - handle_theta0;
     let fillet_dist = handle_fillet + large_rad;
     let fillet_centerA = (fillet_dist * cos handle_theta0 + x_center,
                           y_center - fillet_dist * sin handle_theta0);
     let fillet_centerB = (fillet_dist * cos handle_theta0 + x_center,
                           fillet_dist * sin handle_theta0 + y_center);
     let handle_angle = handle_theta0;
     outline \<leftarrow> drawArc (x_center, y_center) (large_diam / 2.0)
                   handle_angle (2.0 * pi - handle_angle) True;
     a \<leftarrow> drawArc fillet_centerA handle_fillet (1.5 + handle_theta1) (0.5 * pi) False;
     let outline = outline @ a;
     let handle_end = handle_length + x_center + large_diam / 2.0;
     a \<leftarrow> drawArc (handle_end - handle_rad, y_center - 0.5 * handle_width + handle_rad)
             handle_rad (- 0.5 * pi) 0.0 False;
     let outline = outline @ a;
     a \<leftarrow> drawArc (handle_end - handle_rad, y_center + 0.5 * handle_width - handle_rad)
             handle_rad 0.0 (0.5 * pi) False;
     let outline = outline @ a;
     a \<leftarrow> drawArc fillet_centerB handle_fillet (1.5 * pi) (1.5 * pi - handle_theta1) False;
     let outline = outline @ a;
     Some (s @ [PathEl (outline @ [ClosePath])])
   }"

definition makePaddleSeparatorHoles :: "node list option" where
  "makePaddleSeparatorHoles = do {
     let s = [Comment ''Paddle separator holes'' []];
     let R = handle_width / 2 * 0.6;
     holes \<leftarrow> drawArc (x_center + large_rad + handle_length - handle_width / 2, y_center)
                 R 0 (2 * pi) True;
     a \<leftarrow> drawArc (x_center - large_rad + R * 1.2, y_center) (R * 0.8) 0 (2 * pi) True;
     let holes = holes @ a;
     Some (s @ [PathEl (holes @ [ClosePath])])
   }"

definition makeFilmCutout :: "real \<Rightarrow> real \<Rightarrow> real \<Rightarrow> real \<Rightarrow> node list" where
  "makeFilmCutout cut_width cut_height film_width aligner_diam =
     (let s = [Comment (''Film cutout %.4fx%.4f'' @ inch_mark) [cut_width, cut_height]];
          cut_x = x_center - cut_height / 2;
          cut_y = y_center - cut_width / 2
      in s @ [PathEl [MoveTo cut_x cut_y, RelLineTo cut_height 0, RelLineTo 0 cut_width,
                      RelLineTo (- cut_height) 0, ClosePath]])"

definition makeAligners :: "real \<Rightarrow> real \<Rightarrow> real \<Rightarrow> real \<Rightarrow> real \<Rightarrow> node list option" where
  "makeAligners cut_width cut_height film_width aligner_diam scale = do {
     let s = [Comment (''Aligner pins %.4f'' @ inch_mark @ '' diam'') [aligner_diam * scale]];
     let cut_x = x_center - cut_height / 2;
     let cut_y = y_center - cut_width / 2;
     let aligners = [];
     let aligner_rad = aligner_diam / 2;
     let p = (x_center - film_width / 2 - aligner_rad, y_center - cut_width / 2 + aligner_rad);
     a \<leftarrow> drawArc p (aligner_rad * scale) 0 (2 * pi) True;
     let aligners = aligners @ a;
     let p = (x_center + film_width / 2 + aligner_rad, y_center - cut_width / 2 + aligner_rad);
     a \<leftarrow> drawArc p (aligner_rad * scale) 0 (2 * pi) True;
     let aligners = aligners @ a;
     let p = (x_center - film_width / 2 - aligner_rad, y_center + cut_width / 2 - aligner_rad);
     a \<leftarrow> drawArc p (aligner_rad * scale) 0 (2 * pi) True;
     let aligners = aligners @ a;
     let p = (x_center + film_width / 2 + aligner_rad, y_center + cut_width / 2 - aligner_rad);
     a \<leftarrow> drawArc p (aligner_rad * scale) 0 (2 * pi) True;
     let aligners = aligners @ a;
     Some (s @ [PathEl aligners])
   }"

definition makeRing :: "node list option" where
  "makeRing = do {
     let s = [Comment (''Ring  OD=%.4f'' @ inch_mark @ '', ID=%.4f'' @ inch_mark)
                [ring_diam, ring_diam - 1.0]];
     ring \<leftarrow> drawArc (x_center, y_center) (ring_diam / 2) 0.0 (2 * pi) True;
     a \<leftarrow> drawArc (x_center, y_center) (ring_diam / 2 - 0.5) 0.0 (2 * pi) True;
     let ring = ring @ a;
     Some (s @ [PathEl ring])
   }"

definition makeRingAligners :: "node list option" where
  "makeRingAligners = do {
     let s = [Comment ''Ring alignment holes'' []];
     let off = ring_diam / 2 - 0.25;
     holes \<leftarrow> drawArc (x_center, y_center - off) 0.125 0.0 (2 * pi) True;
     a \<leftarrow> drawArc (x_center, y_center + off) 0.125 0.0 (2 * pi) True;
     let holes = holes @ a;
     a \<leftarrow> drawArc (x_center - off, y_center) 0.125 0.0 (2 * pi) True;
     let holes = holes @ a;
     a \<leftarrow> drawArc (x_center + off, y_center) 0.125 0.0 (2 * pi) True;
     let holes = holes @ a;
     Some (s @ [PathEl holes])
   }"

definition makeExtraPins :: "real \<Rightarrow> node list option" where
  "makeExtraPins pin_diam = do {
     let s = [Comment ''Extra alignment pins'' []];
     let off = (large_rad - 0.625) / sqrt 2.0;
     holes \<leftarrow> drawArc (x_center - off, y_center - off) (pin_diam / 2) 0.0 (2 * pi) True;
     a \<leftarrow> drawArc (x_center - off, y_center + off) (pin_diam / 2) 0.0 (2 * pi) True;
     let holes = holes @ a;
     a \<leftarrow> drawArc (x_center + off, y_center - off) (pin_diam / 2) 0.0 (2 * pi) True;
     let holes = holes @ a;
     a \<leftarrow> drawArc (x_center + off, y_center + off) (pin_diam / 2) 0.0 (2 * pi) True;
     let holes = holes @ a;
     Some (s @ [PathEl holes])
   }"

subsection \<open>Layers\<close>

definition genTop ::
  "string \<Rightarrow> real \<Rightarrow> real \<Rightarrow> real \<Rightarrow> real \<Rightarrow> bool \<Rightarrow> files \<Rightarrow> files option" where
  "genTop name cut_width cut_height film_width aligner_diam extra_pins fs = do {
     let s = makeHeader;
     r \<leftarrow> makePaddleOutline;
     let s = s @ r;
     let s = s @ makeFilmCutout cut_width cut_height film_width aligner_diam;
     r \<leftarrow> makeAligners cut_width cut_height film_width aligner_diam 1.0;
     let s = s @ r;
     s \<leftarrow> (if extra_pins then do { r \<leftarrow> makeExtraPins 0.750; Some (s @ r) } else Some s);
     let s = s @ makeFooter;
     Some (fs(name \<mapsto> s))
   }"

definition genBottom ::
  "string \<Rightarrow> real \<Rightarrow> real \<Rightarrow> real \<Rightarrow> real \<Rightarrow> bool \<Rightarrow> files \<Rightarrow> files option" where
  "genBottom name cut_width cut_height film_width aligner_diam extra_pins fs = do {
     let s = makeHeader;
     r \<leftarrow> makePaddleOutline;
     let s = s @ r;
     r \<leftarrow> makePaddleSeparatorHoles;
     let s = s @ r;
     let s = s @ makeFilmCutout cut_width cut_height film_width aligner_diam;
     r \<leftarrow> makeAligners cut_width cut_height film_width aligner_diam 0.5;
     let s = s @ r;
     s \<leftarrow> (if extra_pins then do { r \<leftarrow> makeExtraPins 0.375; Some (s @ r) } else Some s);
     r \<leftarrow> makeRingAligners;
     let s = s @ r;
     let s = s @ makeFooter;
     Some (fs(name \<mapsto> s))
   }"

definition genRing ::
  "string \<Rightarrow> real \<Rightarrow> real \<Rightarrow> real \<Rightarrow> real \<Rightarrow> bool \<Rightarrow> files \<Rightarrow> files option" where
  "genRing name cut_width cut_height film_width aligner_diam extra_pins fs = do {
     let s = makeHeader;
     r \<leftarrow> makeRing;
     let s = s @ r;
     r \<leftarrow> makeRingAligners;
     let s = s @ r;
     let s = s @ makeFooter;
     Some (fs(name \<mapsto> s))
   }"

definition genAll ::
  "string \<Rightarrow> real \<Rightarrow> real \<Rightarrow> real \<Rightarrow> real \<Rightarrow> bool \<Rightarrow> files \<Rightarrow> files option" where
  "genAll name cut_width cut_height film_width aligner_diam extra_pins fs = do {
     let s = makeHeader;
     r \<leftarrow> makePaddleOutline;
     let s = s @ r;
     r \<leftarrow> makePaddleSeparatorHoles;
     let s = s @ r;
     let s = s @ makeFilmCutout cut_width cut_height film_width aligner_diam;
     r \<leftarrow> makeAligners cut_width cut_height film_width aligner_diam 1.0;
     let s = s @ r;
     r \<leftarrow> makeAligners cut_width cut_height film_width aligner_diam 0.5;
     let s = s @ r;
     s \<leftarrow> (if extra_pins
          then do { r \<leftarrow> makeExtraPins 0.750; let s = s @ r;
                    r \<leftarrow> makeExtraPins 0.375; Some (s @ r) }
          else Some s);
     r \<leftarrow> makeRing;
     let s = s @ r;
     r \<leftarrow> makeRingAligners;
     let s = s @ r;
     let s = s @ makeFooter;
     Some (fs(name \<mapsto> s))
   }"

definition genCarrier ::
  "string \<Rightarrow> real \<Rightarrow> real \<Rightarrow> real \<Rightarrow> real \<Rightarrow> bool \<Rightarrow> files \<Rightarrow> files option" where
  "genCarrier name cut_width cut_height film_width aligner_diam extra_pins fs = do {
     fs \<leftarrow> genTop (name @ ''_top.svg'') cut_width cut_height film_width aligner_diam extra_pins fs;
     fs \<leftarrow> genBottom (name @ ''_bottom.svg'') cut_width cut_height film_width aligner_diam extra_pins fs;
     fs \<leftarrow> genRing (name @ ''_ring.svg'') cut_width cut_height film_width aligner_diam extra_pins fs;
     genAll (name @ ''_all.svg'') cut_width cut_height film_width aligner_diam extra_pins fs
   }"

subsection \<open>Reading a path\<close>

text \<open>
  The absolute point a command names, the first and the last point of a path, and the
  closed polylines with every vertex on a given circle: the vocabulary of the statements
  below.
\<close>

fun cmd_point :: "cmd \<Rightarrow> point option" where
  "cmd_point (MoveTo x y) = Some (x, y)"
| "cmd_point (LineTo x y) = Some (x, y)"
| "cmd_point (RelLineTo dx dy) = None"
| "cmd_point ClosePath = None"

definition path_start :: "cmd list \<Rightarrow> point option" where
  "path_start p = (case p of [] \<Rightarrow> None | c # _ \<Rightarrow> cmd_point c)"

definition path_end :: "cmd list \<Rightarrow> point option" where
  "path_end p = (if p = [] then None else cmd_point (last p))"

fun is_LineTo :: "cmd \<Rightarrow> bool" where
  "is_LineTo (LineTo x y) = True"
| "is_LineTo _ = False"

definition on_circle :: "point \<Rightarrow> real \<Rightarrow> cmd \<Rightarrow> bool" where
  "on_circle center r c =
     (case cmd_point c of
        None \<Rightarrow> False
      | Some q \<Rightarrow> (fst q - fst center)\<^sup>2 + (snd q - snd center)\<^sup>2 = r\<^sup>2)"

definition closed_on_circle :: "point \<Rightarrow> real \<Rightarrow> cmd list \<Rightarrow> bool" where
  "closed_on_circle center r p =
     (case p of
        MoveTo x y # ps \<Rightarrow>
          ps \<noteq> [] \<and> list_all is_LineTo ps \<and> path_end ps = Some (x, y) \<and>
          list_all (on_circle center r) p
      | _ \<Rightarrow> False)"

text \<open>The full circle that \<^verbatim>\<open>drawArc\<close> draws around a center, and the path of a shape.\<close>

definition circle_of :: "point \<Rightarrow> real \<Rightarrow> cmd list \<Rightarrow> bool" where
  "circle_of center r p \<longleftrightarrow>
     drawArc center r 0 (2 * pi) True = Some p \<and> closed_on_circle center r p"

definition shape_path :: "node list option \<Rightarrow> cmd list" where
  "shape_path r = (case r of Some [Comment f xs, PathEl p] \<Rightarrow> p | _ \<Rightarrow> [])"

text \<open>
  The arc in closed form: the number of steps of half a degree at most, the lines to the
  samples \<open>a + k (b - a) / n\<close> for \<open>k = 1, ..., n\<close>, and the closed polyline of a full turn,
  which has 721 steps.
\<close>

definition steps :: "real \<Rightarrow> real \<Rightarrow> nat" where
  "steps a b = nat (1 + \<lfloor>\<bar>b - a\<bar> / (pi / 360)\<rfloor>)"

definition arc_lines :: "point \<Rightarrow> real \<Rightarrow> real \<Rightarrow> real \<Rightarrow> cmd list" where
  "arc_lines center r a b =
     map (\<lambda>k. LineTo (fst center + r * cos (a + real k * ((b - a) / real (steps a b))))
                     (snd center + r * sin (a + real k * ((b - a) / real (steps a b)))))
         [1..<Suc (steps a b)]"

definition circle_polyline :: "point \<Rightarrow> real \<Rightarrow> cmd list" where
  "circle_polyline center r =
     MoveTo (fst center + r) (snd center) #
     map (\<lambda>k. LineTo (fst center + r * cos (2 * pi * real k / 721))
                     (snd center + r * sin (2 * pi * real k / 721)))
         [1..<722]"

subsection \<open>Reading a document\<close>

text \<open>The number of \<^verbatim>\<open><path .../>\<close> elements of a document.\<close>

fun is_path :: "node \<Rightarrow> bool" where
  "is_path (PathEl p) = True"
| "is_path _ = False"

definition path_count :: "node list \<Rightarrow> nat" where
  "path_count doc = length (filter is_path doc)"

subsection \<open>The local values of makePaddleOutline\<close>

text \<open>
  The values \<^verbatim>\<open>makePaddleOutline\<close> computes before it draws, under the names the source
  gives them. \<open>handle_theta0\<close> is the value of \<^verbatim>\<open>math.asin\<close>, whose argument is inside
  the domain (lemma \<open>py_asin_handle\<close>).
\<close>

definition handle_theta0 :: real where
  "handle_theta0 = arcsin ((handle_width / 2 + handle_fillet) / (large_rad + handle_fillet))"

definition handle_theta1 :: real where
  "handle_theta1 = pi / 2 - handle_theta0"

definition fillet_dist :: real where
  "fillet_dist = handle_fillet + large_rad"

definition fillet_centerA :: point where
  "fillet_centerA = (fillet_dist * cos handle_theta0 + x_center,
                     y_center - fillet_dist * sin handle_theta0)"

definition fillet_centerB :: point where
  "fillet_centerB = (fillet_dist * cos handle_theta0 + x_center,
                     fillet_dist * sin handle_theta0 + y_center)"

definition handle_end :: real where
  "handle_end = handle_length + x_center + large_diam / 2.0"

section \<open>Properties\<close>

subsection \<open>The arc loop\<close>

lemmas paddle_consts =
  img_width_def img_height_def large_diam_def large_rad_def handle_width_def
  handle_length_def ring_diam_def handle_fillet_def handle_rad_def x_center_def y_center_def

lemma num_segments_eq:
  "num_segments theta0 theta1 = Some (1 + \<lfloor>\<bar>theta1 - theta0\<bar> / (pi / 360)\<rfloor>)"
  by (simp add: num_segments_def py_div_def py_int_def)

lemma num_segments_pos:
  assumes "num_segments theta0 theta1 = Some n"
  shows "1 \<le> n"
proof -
  have "0 \<le> \<bar>theta1 - theta0\<bar> / (pi / 360)" by simp
  then have "0 \<le> \<lfloor>\<bar>theta1 - theta0\<bar> / (pi / 360)\<rfloor>" by (simp only: zero_le_floor)
  moreover have "n = 1 + \<lfloor>\<bar>theta1 - theta0\<bar> / (pi / 360)\<rfloor>"
    using assms unfolding num_segments_eq by (simp only: option.inject)
  ultimately show ?thesis by linarith
qed

lemma dtheta_eq:
  assumes "num_segments theta0 theta1 = Some n"
  shows "dtheta theta0 theta1 = Some ((theta1 - theta0) / real_of_int n)"
  using num_segments_pos [OF assms] assms by (simp add: dtheta_def py_div_def)

lemma drawArc_eq:
  assumes "num_segments theta0 theta1 = Some n"
  shows "drawArc center rad theta0 theta1 moveTo =
           Some (arcLoop center rad theta0 ((theta1 - theta0) / real_of_int n) moveTo (nat n))"
  using assms by (simp add: drawArc_def dtheta_eq)

lemma arcLoop_False:
  "arcLoop center rad theta0 d False n =
     map (\<lambda>i. LineTo (fst (arcPoint center rad (theta0 + real i * d + d)))
                      (snd (arcPoint center rad (theta0 + real i * d + d)))) [0..<n]"
  by (induction n) (simp_all add: arcStep_def Let_def)

lemma arcLoop_True:
  "0 < n \<Longrightarrow> arcLoop center rad theta0 d True n =
     MoveTo (fst (arcPoint center rad theta0)) (snd (arcPoint center rad theta0)) #
     arcLoop center rad theta0 d False n"
proof (induction n)
  case 0
  then show ?case by simp
next
  case (Suc n)
  show ?case
  proof (cases n)
    case 0
    then show ?thesis by (simp add: arcStep_def Let_def)
  next
    case (Suc k)
    with Suc.IH show ?thesis by (simp add: arcStep_def Let_def)
  qed
qed

lemma arcLoop_last:
  assumes "0 < n"
  shows "last (arcLoop center rad theta0 d moveTo n) =
     LineTo (fst (arcPoint center rad (theta0 + real n * d)))
            (snd (arcPoint center rad (theta0 + real n * d)))"
proof (cases n)
  case 0
  with assms show ?thesis by simp
next
  case (Suc k)
  have eq: "theta0 + real k * d + d = theta0 + (1 + real k) * d" by (simp add: algebra_simps)
  show ?thesis unfolding Suc by (simp add: arcStep_def Let_def eq)
qed

lemma arcLoop_length:
  "length (arcLoop center rad theta0 d moveTo n) = n + (if moveTo \<and> 0 < n then 1 else 0)"
  by (induction n) (simp_all add: arcStep_def Let_def)


lemma num_segments_total: "\<exists>n. num_segments theta0 theta1 = Some n \<and> 1 \<le> n"
  using num_segments_pos [of theta0 theta1] by (simp add: num_segments_eq)

lemma dtheta_bound:
  assumes "num_segments theta0 theta1 = Some n"
  shows "\<bar>(theta1 - theta0) / real_of_int n\<bar> \<le> pi / 360"
proof -
  have n: "n = 1 + \<lfloor>\<bar>theta1 - theta0\<bar> / (pi / 360)\<rfloor>"
    using assms unfolding num_segments_eq by (simp only: option.inject)
  have pos: "0 < real_of_int n" using num_segments_pos [OF assms] by simp
  have "\<bar>theta1 - theta0\<bar> / (pi / 360) < real_of_int n"
    unfolding n by linarith
  then have "\<bar>theta1 - theta0\<bar> < real_of_int n * (pi / 360)"
    by (simp add: pos_divide_less_eq)
  then have "\<bar>theta1 - theta0\<bar> / real_of_int n < pi / 360"
    using pos by (simp add: pos_divide_less_eq mult.commute)
  then show ?thesis using pos by (simp add: abs_divide)
qed

lemma on_circle_arcPoint:
  "on_circle center r (LineTo (fst (arcPoint center r t)) (snd (arcPoint center r t)))"
  "on_circle center r (MoveTo (fst (arcPoint center r t)) (snd (arcPoint center r t)))"
  by (simp_all add: on_circle_def arcPoint_def power_mult_distrib
      flip: distrib_right)

lemma arcLoop_False_LineTo: "list_all is_LineTo (arcLoop center r theta0 d False n)"
  by (simp add: arcLoop_False list_all_iff)

lemma arcLoop_False_on_circle: "list_all (on_circle center r) (arcLoop center r theta0 d False n)"
  by (simp add: arcLoop_False list_all_iff on_circle_arcPoint)

text \<open>What every call of \<^verbatim>\<open>drawArc\<close> returns.\<close>

lemma drawArc_result:
  obtains n where
    "num_segments theta0 theta1 = Some n" "1 \<le> n"
    "drawArc center rad theta0 theta1 moveTo =
       Some (arcLoop center rad theta0 ((theta1 - theta0) / real_of_int n) moveTo (nat n))"
    "theta0 + real (nat n) * ((theta1 - theta0) / real_of_int n) = theta1"
proof -
  obtain n where n: "num_segments theta0 theta1 = Some n" "1 \<le> n"
    using num_segments_total by blast
  have "real (nat n) = real_of_int n" using n(2) by simp
  then have "theta0 + real (nat n) * ((theta1 - theta0) / real_of_int n) = theta1"
    using n(2) by simp
  with n drawArc_eq [OF n(1)] that show ?thesis by blast
qed

lemma drawArc_end:
  "\<exists>path. drawArc center rad theta0 theta1 moveTo = Some path \<and>
     path_end path = Some (arcPoint center rad theta1)"
proof -
  obtain n where n: "1 \<le> n"
    "drawArc center rad theta0 theta1 moveTo =
       Some (arcLoop center rad theta0 ((theta1 - theta0) / real_of_int n) moveTo (nat n))"
    "theta0 + real (nat n) * ((theta1 - theta0) / real_of_int n) = theta1"
    by (rule drawArc_result)
  let ?p = "arcLoop center rad theta0 ((theta1 - theta0) / real_of_int n) moveTo (nat n)"
  have pos: "0 < nat n" using n(1) by simp
  have "length ?p \<noteq> 0" using pos by (simp add: arcLoop_length)
  then have ne: "?p \<noteq> []" by simp
  have "last ?p = LineTo (fst (arcPoint center rad theta1)) (snd (arcPoint center rad theta1))"
    using arcLoop_last [OF pos, of center rad theta0 _ moveTo] n(3) by simp
  then have "path_end ?p = Some (arcPoint center rad theta1)"
    using ne by (simp add: path_end_def)
  with n(2) show ?thesis by simp
qed

text \<open>A full turn from angle 0 is a closed polyline with every vertex on the circle.\<close>

lemma drawArc_circle:
  "\<exists>path. drawArc center r 0 (2 * pi) True = Some path \<and> closed_on_circle center r path"
proof -
  obtain n where n: "num_segments 0 (2 * pi) = Some n" "1 \<le> n"
    using num_segments_total by blast
  let ?d = "(2 * pi - 0) / real_of_int n"
  let ?ps = "arcLoop center r 0 ?d False (nat n)"
  have pos: "0 < nat n" using n(2) by simp
  have split: "arcLoop center r 0 ?d True (nat n) =
      MoveTo (fst (arcPoint center r 0)) (snd (arcPoint center r 0)) # ?ps"
    by (rule arcLoop_True [OF pos])
  have "length ?ps \<noteq> 0" using pos by (simp add: arcLoop_length)
  then have ne: "?ps \<noteq> []" by simp
  obtain q where q: "drawArc center r 0 (2 * pi) False = Some q"
    "path_end q = Some (arcPoint center r (2 * pi))"
    using drawArc_end by blast
  have "drawArc center r 0 (2 * pi) False = Some ?ps"
    by (rule drawArc_eq [OF n(1)])
  with q have e: "path_end ?ps = Some (arcPoint center r (2 * pi))" by simp
  have same: "arcPoint center r (2 * pi) = arcPoint center r 0"
    by (simp add: arcPoint_def)
  have "closed_on_circle center r (arcLoop center r 0 ?d True (nat n))"
    unfolding split closed_on_circle_def
    using ne e same arcLoop_False_LineTo [of center r 0 ?d "nat n"]
      arcLoop_False_on_circle [of center r 0 ?d "nat n"]
      on_circle_arcPoint(2) [of center r 0]
    by simp
  then show ?thesis unfolding drawArc_eq [OF n(1)] by simp
qed

text \<open>The first and the last point of an arc.\<close>

lemma drawArc_ends:
  "(\<exists>path. drawArc center rad theta0 theta1 True = Some path \<and>
      path_start path = Some (fst center + rad * cos theta0, snd center + rad * sin theta0) \<and>
      path_end path = Some (fst center + rad * cos theta1, snd center + rad * sin theta1)) \<and>
   (\<exists>path. drawArc center rad theta0 theta1 False = Some path \<and>
      path_end path = Some (fst center + rad * cos theta1, snd center + rad * sin theta1))"
proof -
  obtain n where n: "1 \<le> n"
    "drawArc center rad theta0 theta1 True =
       Some (arcLoop center rad theta0 ((theta1 - theta0) / real_of_int n) True (nat n))"
    by (rule drawArc_result)
  have pos: "0 < nat n" using n(1) by simp
  obtain p where p: "drawArc center rad theta0 theta1 True = Some p"
    "path_end p = Some (arcPoint center rad theta1)"
    using drawArc_end by blast
  have "p = arcLoop center rad theta0 ((theta1 - theta0) / real_of_int n) True (nat n)"
    using p(1) n(2) by simp
  then have "path_start p = Some (arcPoint center rad theta0)"
    unfolding arcLoop_True [OF pos] by (simp add: path_start_def)
  with p have A: "\<exists>path. drawArc center rad theta0 theta1 True = Some path \<and>
      path_start path = Some (fst center + rad * cos theta0, snd center + rad * sin theta0) \<and>
      path_end path = Some (fst center + rad * cos theta1, snd center + rad * sin theta1)"
    by (simp add: arcPoint_def mult.commute)
  have B: "\<exists>path. drawArc center rad theta0 theta1 False = Some path \<and>
      path_end path = Some (fst center + rad * cos theta1, snd center + rad * sin theta1)"
    using drawArc_end [of center rad theta0 theta1 False]
    by (simp add: arcPoint_def mult.commute)
  from A B show ?thesis by (rule conjI)
qed

subsection \<open>The shapes\<close>

lemma circle_of_ex: "\<exists>p. circle_of center r p"
  using drawArc_circle [of center r] by (simp add: circle_of_def)

lemma circle_of_start:
  assumes "circle_of center r p"
  shows "path_start p = Some (fst center + r, snd center)"
proof -
  obtain q where q: "drawArc center r 0 (2 * pi) True = Some q"
    "path_start q = Some (fst center + r * cos 0, snd center + r * sin 0)"
    using drawArc_ends [of center r 0 "2 * pi"] by blast
  from assms q(1) have "p = q" by (simp add: circle_of_def)
  with q(2) show ?thesis by simp
qed

lemma path_start_append: "path_start p = Some q \<Longrightarrow> path_start (p @ p') = Some q"
  by (cases p) (simp_all add: path_start_def)

lemma drawArc_ex: "\<exists>p. drawArc center rad theta0 theta1 moveTo = Some p"
  using drawArc_end [of center rad theta0 theta1 moveTo] by blast

lemma makeAligners_eq:
  assumes "circle_of (x_center - film_width / 2 - aligner_diam / 2,
                      y_center - cut_width / 2 + aligner_diam / 2) (aligner_diam / 2 * scale) a0"
    and "circle_of (x_center + film_width / 2 + aligner_diam / 2,
                    y_center - cut_width / 2 + aligner_diam / 2) (aligner_diam / 2 * scale) a1"
    and "circle_of (x_center - film_width / 2 - aligner_diam / 2,
                    y_center + cut_width / 2 - aligner_diam / 2) (aligner_diam / 2 * scale) a2"
    and "circle_of (x_center + film_width / 2 + aligner_diam / 2,
                    y_center + cut_width / 2 - aligner_diam / 2) (aligner_diam / 2 * scale) a3"
  shows "makeAligners cut_width cut_height film_width aligner_diam scale =
     Some [Comment (''Aligner pins %.4f'' @ inch_mark @ '' diam'') [aligner_diam * scale],
           PathEl (a0 @ a1 @ a2 @ a3)]"
  using assms unfolding circle_of_def makeAligners_def Let_def by simp

lemma makeAligners_shape:
  "\<exists>p. makeAligners cut_width cut_height film_width aligner_diam scale =
     Some [Comment (''Aligner pins %.4f'' @ inch_mark @ '' diam'') [aligner_diam * scale],
           PathEl p]"
proof -
  let ?r = "aligner_diam / 2 * scale"
  obtain a0 a1 a2 a3 where a:
    "circle_of (x_center - film_width / 2 - aligner_diam / 2,
                y_center - cut_width / 2 + aligner_diam / 2) ?r a0"
    "circle_of (x_center + film_width / 2 + aligner_diam / 2,
                y_center - cut_width / 2 + aligner_diam / 2) ?r a1"
    "circle_of (x_center - film_width / 2 - aligner_diam / 2,
                y_center + cut_width / 2 - aligner_diam / 2) ?r a2"
    "circle_of (x_center + film_width / 2 + aligner_diam / 2,
                y_center + cut_width / 2 - aligner_diam / 2) ?r a3"
    using circle_of_ex by meson
  from makeAligners_eq [OF a] show ?thesis by blast
qed

lemma makeRing_eq:
  assumes "circle_of (x_center, y_center) (ring_diam / 2) outer"
    and "circle_of (x_center, y_center) (ring_diam / 2 - 0.5) inner"
  shows "makeRing =
     Some [Comment (''Ring  OD=%.4f'' @ inch_mark @ '', ID=%.4f'' @ inch_mark)
             [ring_diam, ring_diam - 1.0],
           PathEl (outer @ inner)]"
  using assms unfolding circle_of_def makeRing_def Let_def by simp

lemma makeRing_shape:
  "\<exists>p. makeRing =
     Some [Comment (''Ring  OD=%.4f'' @ inch_mark @ '', ID=%.4f'' @ inch_mark)
             [ring_diam, ring_diam - 1.0],
           PathEl p]"
proof -
  obtain outer inner where
    "circle_of (x_center, y_center) (ring_diam / 2) outer"
    "circle_of (x_center, y_center) (ring_diam / 2 - 0.5) inner"
    using circle_of_ex by meson
  from makeRing_eq [OF this] show ?thesis by blast
qed

lemma makeRingAligners_shape:
  "\<exists>p. makeRingAligners = Some [Comment ''Ring alignment holes'' [], PathEl p]"
proof -
  obtain a0 a1 a2 a3 where
    "drawArc (x_center, y_center - (ring_diam / 2 - 0.25)) 0.125 0.0 (2 * pi) True = Some a0"
    "drawArc (x_center, y_center + (ring_diam / 2 - 0.25)) 0.125 0.0 (2 * pi) True = Some a1"
    "drawArc (x_center - (ring_diam / 2 - 0.25), y_center) 0.125 0.0 (2 * pi) True = Some a2"
    "drawArc (x_center + (ring_diam / 2 - 0.25), y_center) 0.125 0.0 (2 * pi) True = Some a3"
    using drawArc_ex by meson
  then show ?thesis unfolding makeRingAligners_def Let_def by simp
qed

lemma makeExtraPins_shape:
  "\<exists>p. makeExtraPins pin_diam = Some [Comment ''Extra alignment pins'' [], PathEl p]"
proof -
  let ?off = "(large_rad - 0.625) / sqrt 2.0"
  obtain a0 a1 a2 a3 where
    "drawArc (x_center - ?off, y_center - ?off) (pin_diam / 2) 0.0 (2 * pi) True = Some a0"
    "drawArc (x_center - ?off, y_center + ?off) (pin_diam / 2) 0.0 (2 * pi) True = Some a1"
    "drawArc (x_center + ?off, y_center - ?off) (pin_diam / 2) 0.0 (2 * pi) True = Some a2"
    "drawArc (x_center + ?off, y_center + ?off) (pin_diam / 2) 0.0 (2 * pi) True = Some a3"
    using drawArc_ex by meson
  then show ?thesis unfolding makeExtraPins_def Let_def by simp
qed

lemma py_asin_handle:
  "py_asin ((handle_width / 2 + handle_fillet) / (large_rad + handle_fillet)) = Some handle_theta0"
  by (simp add: py_asin_def handle_theta0_def paddle_consts)

lemma makePaddleOutline_eq:
  assumes "drawArc (x_center, y_center) (large_diam / 2.0)
             handle_theta0 (2.0 * pi - handle_theta0) True = Some f1"
    and "drawArc fillet_centerA handle_fillet (1.5 + handle_theta1) (0.5 * pi) False = Some f2"
    and "drawArc (handle_end - handle_rad, y_center - 0.5 * handle_width + handle_rad)
           handle_rad (- 0.5 * pi) 0.0 False = Some f3"
    and "drawArc (handle_end - handle_rad, y_center + 0.5 * handle_width - handle_rad)
           handle_rad 0.0 (0.5 * pi) False = Some f4"
    and "drawArc fillet_centerB handle_fillet (1.5 * pi) (1.5 * pi - handle_theta1) False = Some f5"
  shows "makePaddleOutline =
     Some [Comment ''Paddle outline'' [], PathEl (f1 @ f2 @ f3 @ f4 @ f5 @ [ClosePath])]"
  unfolding makePaddleOutline_def py_asin_handle Let_def
  using assms
  unfolding handle_theta1_def fillet_centerA_def fillet_centerB_def fillet_dist_def handle_end_def
  by simp

lemma makePaddleOutline_shape: "\<exists>p. makePaddleOutline = Some [Comment ''Paddle outline'' [], PathEl p]"
proof -
  obtain f1 f2 f3 f4 f5 where
    "drawArc (x_center, y_center) (large_diam / 2.0)
             handle_theta0 (2.0 * pi - handle_theta0) True = Some f1"
    "drawArc fillet_centerA handle_fillet (1.5 + handle_theta1) (0.5 * pi) False = Some f2"
    "drawArc (handle_end - handle_rad, y_center - 0.5 * handle_width + handle_rad)
           handle_rad (- 0.5 * pi) 0.0 False = Some f3"
    "drawArc (handle_end - handle_rad, y_center + 0.5 * handle_width - handle_rad)
           handle_rad 0.0 (0.5 * pi) False = Some f4"
    "drawArc fillet_centerB handle_fillet (1.5 * pi) (1.5 * pi - handle_theta1) False = Some f5"
    using drawArc_ex by meson
  from makePaddleOutline_eq [OF this] show ?thesis by blast
qed

subsection \<open>The paddle outline\<close>







text \<open>
  The start angle of the first fillet. The large arc ends at the point of the fillet's
  circle at the angle \<open>0.5 * pi + handle_theta1\<close>; the source starts the fillet at
  \<open>1.5 + handle_theta1\<close>, which is another point of that circle, since \<open>cos 1.5\<close> is
  positive and \<open>1.5\<close> therefore is not \<open>pi / 2\<close>.
\<close>

lemma cos_lower: "1 - 2 * w\<^sup>2 \<le> cos (2 * w)" for w :: real
proof -
  have "\<bar>sin w\<bar> \<le> \<bar>w\<bar>" by (rule abs_sin_x_le_abs_x)
  then have "\<bar>sin w\<bar>\<^sup>2 \<le> \<bar>w\<bar>\<^sup>2" by (rule power_mono) simp
  then have "(sin w)\<^sup>2 \<le> w\<^sup>2" by simp
  moreover have "cos (2 * w) = 1 - 2 * (sin w)\<^sup>2"
    by (simp add: cos_double cos_squared_eq)
  ultimately show ?thesis by simp
qed

lemma cos_three_halves_pos: "0 < cos (1.5 :: real)"
proof -
  have "1 - 2 * (0.375 :: real)\<^sup>2 \<le> cos (2 * 0.375)" by (rule cos_lower)
  then have c: "(0.71875 :: real) \<le> cos 0.75" by (simp add: power2_eq_square)
  then have "(0.71875 :: real)\<^sup>2 \<le> (cos 0.75)\<^sup>2" by (rule power_mono) simp
  moreover have "cos (2 * 0.75 :: real) = 2 * (cos 0.75)\<^sup>2 - 1" by (rule cos_double_cos)
  ultimately have "2 * (0.71875 :: real)\<^sup>2 - 1 \<le> cos (2 * 0.75)" by simp
  then show ?thesis by (simp add: power2_eq_square)
qed

lemma same_direction:
  fixes a b :: real
  assumes "cos a = cos b" and "sin a = sin b"
  shows "cos (a - b) = 1"
  using assms sin_cos_squared_add [of b] by (simp add: cos_diff power2_eq_square)

lemma first_fillet_tangent_point:
  "arcPoint fillet_centerA handle_fillet (0.5 * pi + handle_theta1) =
     (x_center + large_diam / 2.0 * cos (2.0 * pi - handle_theta0),
      y_center + large_diam / 2.0 * sin (2.0 * pi - handle_theta0))"
proof -
  have e: "0.5 * pi + handle_theta1 = - handle_theta0 + pi"
    by (simp add: handle_theta1_def)
  have c: "cos (2.0 * pi - handle_theta0) = cos handle_theta0"
    "sin (2.0 * pi - handle_theta0) = - sin handle_theta0"
    using cos_periodic [of "- handle_theta0"] sin_periodic [of "- handle_theta0"]
    by (simp_all add: algebra_simps)
  show ?thesis
    unfolding arcPoint_def e cos_periodic_pi sin_periodic_pi c
    by (simp add: fillet_centerA_def fillet_dist_def large_rad_def algebra_simps)
qed

lemma first_fillet_start_off:
  "arcPoint fillet_centerA handle_fillet (1.5 + handle_theta1) \<noteq>
     (x_center + large_diam / 2.0 * cos (2.0 * pi - handle_theta0),
      y_center + large_diam / 2.0 * sin (2.0 * pi - handle_theta0))"
proof
  assume "arcPoint fillet_centerA handle_fillet (1.5 + handle_theta1) =
     (x_center + large_diam / 2.0 * cos (2.0 * pi - handle_theta0),
      y_center + large_diam / 2.0 * sin (2.0 * pi - handle_theta0))"
  then have "arcPoint fillet_centerA handle_fillet (1.5 + handle_theta1) =
     arcPoint fillet_centerA handle_fillet (0.5 * pi + handle_theta1)"
    by (simp only: first_fillet_tangent_point)
  then have "cos (1.5 + handle_theta1) = cos (0.5 * pi + handle_theta1)"
    and "sin (1.5 + handle_theta1) = sin (0.5 * pi + handle_theta1)"
    by (simp_all add: arcPoint_def handle_fillet_def)
  then have "cos ((1.5 + handle_theta1) - (0.5 * pi + handle_theta1)) = 1"
    by (rule same_direction)
  moreover have "(1.5 + handle_theta1) - (0.5 * pi + handle_theta1) = 1.5 - pi / 2"
    by simp
  ultimately have "cos (1.5 - pi / 2) = 1" by simp
  then have "sin (1.5 :: real) = 1" by (simp add: cos_diff)
  then have "(cos (1.5 :: real))\<^sup>2 = 0" by (simp add: cos_squared_eq)
  then have "cos (1.5 :: real) = 0" by simp
  with cos_three_halves_pos show False by simp
qed

subsection \<open>The arc in closed form\<close>

lemma steps_pos: "1 \<le> steps a b"
proof -
  have "0 \<le> \<bar>b - a\<bar> / (pi / 360)" by simp
  then have "0 \<le> \<lfloor>\<bar>b - a\<bar> / (pi / 360)\<rfloor>" by (simp only: zero_le_floor)
  then show ?thesis unfolding steps_def by linarith
qed

lemma num_segments_steps: "num_segments a b = Some (int (steps a b))"
proof -
  have "0 \<le> \<bar>b - a\<bar> / (pi / 360)" by simp
  then have "0 \<le> \<lfloor>\<bar>b - a\<bar> / (pi / 360)\<rfloor>" by (simp only: zero_le_floor)
  then have "int (steps a b) = 1 + \<lfloor>\<bar>b - a\<bar> / (pi / 360)\<rfloor>"
    unfolding steps_def by simp
  then show ?thesis by (simp only: num_segments_eq)
qed

lemma arcLoop_False_lines:
  "arcLoop center r a d False n =
     map (\<lambda>k. LineTo (fst center + r * cos (a + real k * d)) (snd center + r * sin (a + real k * d)))
         [1..<Suc n]"
proof -
  have "[1..<Suc n] = map Suc [0..<n]"
    by (simp add: map_Suc_upt)
  moreover have "a + real i * d + d = a + real (Suc i) * d" for i
    by (simp add: algebra_simps)
  ultimately show ?thesis
    by (simp add: arcLoop_False arcPoint_def comp_def algebra_simps del: upt_Suc)
qed

lemma drawArc_False_eq: "drawArc center r a b False = Some (arc_lines center r a b)"
  unfolding drawArc_eq [OF num_segments_steps] arc_lines_def
  by (simp add: arcLoop_False_lines del: upt_Suc)

lemma drawArc_True_eq:
  "drawArc center r a b True =
     Some (MoveTo (fst center + r * cos a) (snd center + r * sin a) # arc_lines center r a b)"
proof -
  have pos: "0 < nat (int (steps a b))" using steps_pos [of a b] by simp
  show ?thesis
    unfolding drawArc_eq [OF num_segments_steps] arcLoop_True [OF pos] arc_lines_def
    by (simp add: arcLoop_False_lines arcPoint_def mult.commute [of _ r] del: upt_Suc)
qed

lemma arc_lines_length: "length (arc_lines center r a b) = steps a b"
  by (simp add: arc_lines_def del: upt_Suc)

lemma arc_lines_last:
  "last (arc_lines center r a b) = LineTo (fst center + r * cos b) (snd center + r * sin b)"
proof -
  have pos: "0 < steps a b" using steps_pos [of a b] by simp
  then have "[1..<Suc (steps a b)] = [1..<steps a b] @ [steps a b]"
    by simp
  moreover have "a + real (steps a b) * ((b - a) / real (steps a b)) = b"
    using pos by simp
  ultimately show ?thesis
    unfolding arc_lines_def by (simp del: upt_Suc)
qed

lemma steps_full: "steps 0 (2 * pi) = 721"
  by (simp add: steps_def)


lemma steps_degenerate: "steps a a = 1"
  by (simp add: steps_def)

lemma arc_lines_full: "MoveTo (fst center + r) (snd center) # arc_lines center r 0 (2 * pi) = circle_polyline center r"
  unfolding circle_polyline_def arc_lines_def steps_full
  by (simp add: mult_ac del: upt_Suc)

lemma drawArc_full: "drawArc center r 0 (2 * pi) True = Some (circle_polyline center r)"
  using drawArc_True_eq [of center r 0 "2 * pi"] arc_lines_full [of center r] by simp

lemma circle_polyline_last: "last (circle_polyline center r) = LineTo (fst center + r) (snd center)"
proof -
  have "arc_lines center r 0 (2 * pi) \<noteq> []"
    using arc_lines_length [of center r 0 "2 * pi"] steps_full by auto
  then have "last (circle_polyline center r) = last (arc_lines center r 0 (2 * pi))"
    unfolding arc_lines_full [symmetric] by simp
  then show ?thesis by (simp add: arc_lines_last)
qed

lemma circle_polyline_on_circle: "list_all (on_circle center r) (circle_polyline center r)"
  unfolding circle_polyline_def
  by (simp add: list_all_iff on_circle_def power_mult_distrib del: upt_Suc flip: distrib_left)


lemma arc_lines_degenerate:
  "arc_lines center r a a = [LineTo (fst center + r * cos a) (snd center + r * sin a)]"
  by (simp add: arc_lines_def steps_degenerate)



section \<open>The claims\<close>

subsection \<open>drawArc\<close>

text \<open>
  C5. For every center, radius and angle pair, the degenerate \<open>theta0 = theta1\<close>
  included, the segment count is at least 1, the division by it is defined (the step is
  \<open>Some d\<close>: no division by zero), the magnitude of the recomputed step is at most half a
  degree, \<open>pi / 360\<close>, and \<^verbatim>\<open>drawArc\<close> returns the path of that many iterations.
\<close>

theorem drawArc_segment_count:
  "\<exists>n d. num_segments theta0 theta1 = Some n \<and> 1 \<le> n \<and>
         dtheta theta0 theta1 = Some d \<and> d = (theta1 - theta0) / real_of_int n \<and>
         \<bar>d\<bar> \<le> pi / 360 \<and>
         drawArc center rad theta0 theta1 moveTo =
           Some (arcLoop center rad theta0 d moveTo (nat n))"
proof -
  obtain n where n: "num_segments theta0 theta1 = Some n" "1 \<le> n"
    using num_segments_total by blast
  show ?thesis
    using n dtheta_eq [OF n(1)] dtheta_bound [OF n(1)] drawArc_eq [OF n(1)] by blast
qed

subsection \<open>The shapes\<close>

text \<open>
  C2, as the claim states it, fails. For the 35mm format (cut 1.425 x 0.945, film width
  1.388, pin diameter 0.5) the pen starts the first pin at (2.556, 2.7875), which is not
  on the circle of radius 0.25 around the center the claim gives, the format center moved
  by half the film width plus the pin radius and by half the cutout height plus the pin
  radius.
\<close>

theorem aligner_35mm_counterexample:
  "path_start (shape_path (makeAligners 1.425 0.945 1.388 0.5 1.0)) = Some (2.556, 2.7875) \<and>
   \<not> on_circle (x_center - (1.388 / 2 + 0.5 / 2), y_center - (0.945 / 2 + 0.5 / 2)) (0.5 / 2)
        (MoveTo 2.556 2.7875)"
proof
  let ?r = "0.5 / 2 * (1.0::real)"
  obtain a0 a1 a2 a3 where a:
    "circle_of (x_center - 1.388 / 2 - 0.5 / 2, y_center - 1.425 / 2 + 0.5 / 2) ?r a0"
    "circle_of (x_center + 1.388 / 2 + 0.5 / 2, y_center - 1.425 / 2 + 0.5 / 2) ?r a1"
    "circle_of (x_center - 1.388 / 2 - 0.5 / 2, y_center + 1.425 / 2 - 0.5 / 2) ?r a2"
    "circle_of (x_center + 1.388 / 2 + 0.5 / 2, y_center + 1.425 / 2 - 0.5 / 2) ?r a3"
    using circle_of_ex by meson
  have "path_start a0 = Some (2.556, 2.7875)"
    using circle_of_start [OF a(1)] by (simp add: paddle_consts)
  then have "path_start (a0 @ a1 @ a2 @ a3) = Some (2.556, 2.7875)"
    by (rule path_start_append)
  then show "path_start (shape_path (makeAligners 1.425 0.945 1.388 0.5 1.0)) = Some (2.556, 2.7875)"
    unfolding makeAligners_eq [OF a] by (simp add: shape_path_def)
  show "\<not> on_circle (x_center - (1.388 / 2 + 0.5 / 2), y_center - (0.945 / 2 + 0.5 / 2)) (0.5 / 2)
        (MoveTo 2.556 2.7875)"
    by (simp add: on_circle_def paddle_consts power2_eq_square)
qed

text \<open>
  C2, amended. For every film format and scale, \<^verbatim>\<open>makeAligners\<close> emits one path of four
  full circles whose centers are offset from the format center by half the film width
  plus one pin radius horizontally and by half of \<open>cut_width\<close> minus one pin radius
  vertically.
\<close>

theorem makeAligners_centers:
  "\<exists>a0 a1 a2 a3.
     makeAligners cut_width cut_height film_width aligner_diam scale =
       Some [Comment (''Aligner pins %.4f'' @ inch_mark @ '' diam'') [aligner_diam * scale],
             PathEl (a0 @ a1 @ a2 @ a3)] \<and>
     circle_of (x_center - (film_width / 2 + aligner_diam / 2),
                y_center - (cut_width / 2 - aligner_diam / 2)) (aligner_diam / 2 * scale) a0 \<and>
     circle_of (x_center + (film_width / 2 + aligner_diam / 2),
                y_center - (cut_width / 2 - aligner_diam / 2)) (aligner_diam / 2 * scale) a1 \<and>
     circle_of (x_center - (film_width / 2 + aligner_diam / 2),
                y_center + (cut_width / 2 - aligner_diam / 2)) (aligner_diam / 2 * scale) a2 \<and>
     circle_of (x_center + (film_width / 2 + aligner_diam / 2),
                y_center + (cut_width / 2 - aligner_diam / 2)) (aligner_diam / 2 * scale) a3"
proof -
  let ?r = "aligner_diam / 2 * scale"
  obtain a0 a1 a2 a3 where a:
    "circle_of (x_center - film_width / 2 - aligner_diam / 2,
                y_center - cut_width / 2 + aligner_diam / 2) ?r a0"
    "circle_of (x_center + film_width / 2 + aligner_diam / 2,
                y_center - cut_width / 2 + aligner_diam / 2) ?r a1"
    "circle_of (x_center - film_width / 2 - aligner_diam / 2,
                y_center + cut_width / 2 - aligner_diam / 2) ?r a2"
    "circle_of (x_center + film_width / 2 + aligner_diam / 2,
                y_center + cut_width / 2 - aligner_diam / 2) ?r a3"
    using circle_of_ex by meson
  have e: "x_center - film_width / 2 - aligner_diam / 2 = x_center - (film_width / 2 + aligner_diam / 2)"
    "x_center + film_width / 2 + aligner_diam / 2 = x_center + (film_width / 2 + aligner_diam / 2)"
    "y_center - cut_width / 2 + aligner_diam / 2 = y_center - (cut_width / 2 - aligner_diam / 2)"
    "y_center + cut_width / 2 - aligner_diam / 2 = y_center + (cut_width / 2 - aligner_diam / 2)"
    by simp_all
  show ?thesis
    using makeAligners_eq [OF a] a unfolding e by blast
qed

text \<open>
  C9. For every film format there are four centers such that, for every scale, the path
  of \<^verbatim>\<open>makeAligners\<close> is the four full circles around these centers with the radius
  \<open>aligner_diam / 2 * scale\<close>: the scale changes the radius only.
\<close>

theorem makeAligners_scale:
  "\<exists>c0 c1 c2 c3. \<forall>scale. \<exists>a0 a1 a2 a3.
     makeAligners cut_width cut_height film_width aligner_diam scale =
       Some [Comment (''Aligner pins %.4f'' @ inch_mark @ '' diam'') [aligner_diam * scale],
             PathEl (a0 @ a1 @ a2 @ a3)] \<and>
     circle_of c0 (aligner_diam / 2 * scale) a0 \<and>
     circle_of c1 (aligner_diam / 2 * scale) a1 \<and>
     circle_of c2 (aligner_diam / 2 * scale) a2 \<and>
     circle_of c3 (aligner_diam / 2 * scale) a3"
proof -
  have main: "\<exists>a0 a1 a2 a3.
     makeAligners cut_width cut_height film_width aligner_diam scale =
       Some [Comment (''Aligner pins %.4f'' @ inch_mark @ '' diam'') [aligner_diam * scale],
             PathEl (a0 @ a1 @ a2 @ a3)] \<and>
     circle_of (x_center - film_width / 2 - aligner_diam / 2,
                y_center - cut_width / 2 + aligner_diam / 2) (aligner_diam / 2 * scale) a0 \<and>
     circle_of (x_center + film_width / 2 + aligner_diam / 2,
                y_center - cut_width / 2 + aligner_diam / 2) (aligner_diam / 2 * scale) a1 \<and>
     circle_of (x_center - film_width / 2 - aligner_diam / 2,
                y_center + cut_width / 2 - aligner_diam / 2) (aligner_diam / 2 * scale) a2 \<and>
     circle_of (x_center + film_width / 2 + aligner_diam / 2,
                y_center + cut_width / 2 - aligner_diam / 2) (aligner_diam / 2 * scale) a3"
    for scale
  proof -
    let ?r = "aligner_diam / 2 * scale"
    obtain a0 a1 a2 a3 where a:
      "circle_of (x_center - film_width / 2 - aligner_diam / 2,
                  y_center - cut_width / 2 + aligner_diam / 2) ?r a0"
      "circle_of (x_center + film_width / 2 + aligner_diam / 2,
                  y_center - cut_width / 2 + aligner_diam / 2) ?r a1"
      "circle_of (x_center - film_width / 2 - aligner_diam / 2,
                  y_center + cut_width / 2 - aligner_diam / 2) ?r a2"
      "circle_of (x_center + film_width / 2 + aligner_diam / 2,
                  y_center + cut_width / 2 - aligner_diam / 2) ?r a3"
      using circle_of_ex by meson
    from makeAligners_eq [OF a] a show ?thesis by blast
  qed
  show ?thesis
    apply (rule exI [of _ "(x_center - film_width / 2 - aligner_diam / 2,
                            y_center - cut_width / 2 + aligner_diam / 2)"])
    apply (rule exI [of _ "(x_center + film_width / 2 + aligner_diam / 2,
                            y_center - cut_width / 2 + aligner_diam / 2)"])
    apply (rule exI [of _ "(x_center - film_width / 2 - aligner_diam / 2,
                            y_center + cut_width / 2 - aligner_diam / 2)"])
    apply (rule exI [of _ "(x_center + film_width / 2 + aligner_diam / 2,
                            y_center + cut_width / 2 - aligner_diam / 2)"])
    apply (rule allI)
    apply (rule main)
    done
qed

text \<open>
  C8. \<^verbatim>\<open>makeRing\<close> emits one path of exactly two closed polylines around the format
  center \<open>(img_height / 2, img_height / 2)\<close>. Each is a move to \<open>center + (r, 0)\<close> followed
  by the 721 lines to \<open>center + r (cos (2 pi k / 721), sin (2 pi k / 721))\<close> for
  \<open>k = 1, ..., 721\<close>: its last line returns to the point of the move, and every vertex is
  on the circle of radius \<open>r\<close> around the center. The outer radius is \<open>4.725 / 2\<close>, the
  inner \<open>(4.725 - 1.0) / 2\<close>.
\<close>

theorem makeRing_circles:
  "makeRing =
     Some [Comment (''Ring  OD=%.4f'' @ inch_mark @ '', ID=%.4f'' @ inch_mark) [4.725, 3.725],
           PathEl (circle_polyline (x_center, y_center) (4.725 / 2) @
                   circle_polyline (x_center, y_center) ((4.725 - 1.0) / 2))] \<and>
   (x_center, y_center) = (img_height / 2, img_height / 2) \<and>
   last (circle_polyline (x_center, y_center) (4.725 / 2)) = LineTo (x_center + 4.725 / 2) y_center \<and>
   last (circle_polyline (x_center, y_center) ((4.725 - 1.0) / 2)) =
     LineTo (x_center + (4.725 - 1.0) / 2) y_center \<and>
   list_all (on_circle (x_center, y_center) (4.725 / 2))
     (circle_polyline (x_center, y_center) (4.725 / 2)) \<and>
   list_all (on_circle (x_center, y_center) ((4.725 - 1.0) / 2))
     (circle_polyline (x_center, y_center) ((4.725 - 1.0) / 2))"
proof (intro conjI)
  have o: "drawArc (x_center, y_center) (ring_diam / 2) 0 (2 * pi) True =
      Some (circle_polyline (x_center, y_center) (4.725 / 2))"
    unfolding drawArc_full by (simp add: ring_diam_def)
  have i: "drawArc (x_center, y_center) (ring_diam / 2 - 0.5) 0 (2 * pi) True =
      Some (circle_polyline (x_center, y_center) ((4.725 - 1.0) / 2))"
    unfolding drawArc_full by (simp add: ring_diam_def)
  show "makeRing =
     Some [Comment (''Ring  OD=%.4f'' @ inch_mark @ '', ID=%.4f'' @ inch_mark) [4.725, 3.725],
           PathEl (circle_polyline (x_center, y_center) (4.725 / 2) @
                   circle_polyline (x_center, y_center) ((4.725 - 1.0) / 2))]"
    using o i unfolding makeRing_def Let_def by (simp add: ring_diam_def)
  show "(x_center, y_center) = (img_height / 2, img_height / 2)"
    by (simp add: x_center_def y_center_def)
  show "last (circle_polyline (x_center, y_center) (4.725 / 2)) = LineTo (x_center + 4.725 / 2) y_center"
    using circle_polyline_last [of "(x_center, y_center)"] by simp
  show "last (circle_polyline (x_center, y_center) ((4.725 - 1.0) / 2)) =
     LineTo (x_center + (4.725 - 1.0) / 2) y_center"
    using circle_polyline_last [of "(x_center, y_center)"] by simp
  show "list_all (on_circle (x_center, y_center) (4.725 / 2))
     (circle_polyline (x_center, y_center) (4.725 / 2))"
    by (rule circle_polyline_on_circle)
  show "list_all (on_circle (x_center, y_center) ((4.725 - 1.0) / 2))
     (circle_polyline (x_center, y_center) ((4.725 - 1.0) / 2))"
    by (rule circle_polyline_on_circle)
qed

subsection \<open>Validation\<close>

text \<open>
  C3, as the claim states it, fails: with the negative radius -1 and the degenerate angle
  range from 0 to 0, \<^verbatim>\<open>drawArc\<close> raises nothing and returns a path of one segment of
  length zero.
\<close>

theorem drawArc_negative_radius_counterexample:
  "drawArc (0, 0) (- 1) 0 0 True = Some [MoveTo (- 1) 0, LineTo (- 1) 0]"
proof -
  have ns: "num_segments 0 0 = Some 1"
    by (simp add: num_segments_eq)
  show ?thesis
    unfolding drawArc_eq [OF ns] by (simp add: arcStep_def arcPoint_def)
qed

text \<open>
  C3, amended. The program validates no geometry input, and none of the invalid inputs
  the claim names gives an error. For every center and every radius, zero and negative
  included: with the degenerate range \<open>theta0 = theta1\<close> \<^verbatim>\<open>drawArc\<close> returns one line to
  \<open>center + r (cos theta0, sin theta0)\<close>, after a move to the same point when \<open>moveTo\<close>
  is true; with the full turn from 0 to \<open>2 pi\<close> it returns the closed polyline of 721
  lines around the center. For all dimensions and every scale, negative ones included,
  \<^verbatim>\<open>makeAligners\<close> returns its comment and one path of four such polylines.
\<close>

theorem no_validation:
  "drawArc center rad theta theta True =
     Some [MoveTo (fst center + rad * cos theta) (snd center + rad * sin theta),
           LineTo (fst center + rad * cos theta) (snd center + rad * sin theta)] \<and>
   drawArc center rad theta theta False =
     Some [LineTo (fst center + rad * cos theta) (snd center + rad * sin theta)] \<and>
   drawArc center rad 0 (2 * pi) True = Some (circle_polyline center rad) \<and>
   makeAligners cut_width cut_height film_width aligner_diam scale =
     Some [Comment (''Aligner pins %.4f'' @ inch_mark @ '' diam'') [aligner_diam * scale],
           PathEl (circle_polyline (x_center - film_width / 2 - aligner_diam / 2,
                                    y_center - cut_width / 2 + aligner_diam / 2)
                     (aligner_diam / 2 * scale) @
                   circle_polyline (x_center + film_width / 2 + aligner_diam / 2,
                                    y_center - cut_width / 2 + aligner_diam / 2)
                     (aligner_diam / 2 * scale) @
                   circle_polyline (x_center - film_width / 2 - aligner_diam / 2,
                                    y_center + cut_width / 2 - aligner_diam / 2)
                     (aligner_diam / 2 * scale) @
                   circle_polyline (x_center + film_width / 2 + aligner_diam / 2,
                                    y_center + cut_width / 2 - aligner_diam / 2)
                     (aligner_diam / 2 * scale))]"
proof (intro conjI)
  show "drawArc center rad theta theta True =
     Some [MoveTo (fst center + rad * cos theta) (snd center + rad * sin theta),
           LineTo (fst center + rad * cos theta) (snd center + rad * sin theta)]"
    unfolding drawArc_True_eq arc_lines_degenerate by simp
  show "drawArc center rad theta theta False =
     Some [LineTo (fst center + rad * cos theta) (snd center + rad * sin theta)]"
    unfolding drawArc_False_eq arc_lines_degenerate by simp
  show "drawArc center rad 0 (2 * pi) True = Some (circle_polyline center rad)"
    by (rule drawArc_full)
  show "makeAligners cut_width cut_height film_width aligner_diam scale =
     Some [Comment (''Aligner pins %.4f'' @ inch_mark @ '' diam'') [aligner_diam * scale],
           PathEl (circle_polyline (x_center - film_width / 2 - aligner_diam / 2,
                                    y_center - cut_width / 2 + aligner_diam / 2)
                     (aligner_diam / 2 * scale) @
                   circle_polyline (x_center + film_width / 2 + aligner_diam / 2,
                                    y_center - cut_width / 2 + aligner_diam / 2)
                     (aligner_diam / 2 * scale) @
                   circle_polyline (x_center - film_width / 2 - aligner_diam / 2,
                                    y_center + cut_width / 2 - aligner_diam / 2)
                     (aligner_diam / 2 * scale) @
                   circle_polyline (x_center + film_width / 2 + aligner_diam / 2,
                                    y_center + cut_width / 2 - aligner_diam / 2)
                     (aligner_diam / 2 * scale))]"
    unfolding makeAligners_def Let_def drawArc_full by simp
qed

subsection \<open>The layers\<close>

text \<open>
  C7. For every film format the document \<^verbatim>\<open>genTop\<close> writes is, between header and footer
  and in this order, the paddle outline, the film cutout, the aligner pins at scale 1.0
  and, exactly when \<open>extra_pins\<close> is true, the extra pins of diameter 0.75. Each of these
  shapes holds one path element, so the document holds 4 of them when \<open>extra_pins\<close> is
  true and 3 when it is false.
\<close>

theorem genTop_layer:
  "\<exists>outline aligners pins.
     makePaddleOutline = Some outline \<and>
     makeAligners cut_width cut_height film_width aligner_diam 1.0 = Some aligners \<and>
     makeExtraPins 0.750 = Some pins \<and>
     genTop name cut_width cut_height film_width aligner_diam extra_pins fs =
       Some (fs(name \<mapsto>
          makeHeader @ outline @ makeFilmCutout cut_width cut_height film_width aligner_diam @
          aligners @ (if extra_pins then pins else []) @ makeFooter)) \<and>
     map path_count
       [makeHeader, outline, makeFilmCutout cut_width cut_height film_width aligner_diam,
        aligners, pins, makeFooter] = [0, 1, 1, 1, 1, 0] \<and>
     path_count
       (makeHeader @ outline @ makeFilmCutout cut_width cut_height film_width aligner_diam @
        aligners @ (if extra_pins then pins else []) @ makeFooter) =
       (if extra_pins then 4 else 3)"
proof -
  obtain po where po: "makePaddleOutline = Some [Comment ''Paddle outline'' [], PathEl po]"
    using makePaddleOutline_shape by blast
  obtain pa where pa: "makeAligners cut_width cut_height film_width aligner_diam 1.0 =
     Some [Comment (''Aligner pins %.4f'' @ inch_mark @ '' diam'') [aligner_diam * 1.0], PathEl pa]"
    using makeAligners_shape by blast
  obtain px where px: "makeExtraPins 0.750 = Some [Comment ''Extra alignment pins'' [], PathEl px]"
    using makeExtraPins_shape by blast
  show ?thesis
    unfolding genTop_def Let_def po pa px
    by (simp add: path_count_def makeHeader_def makeFooter_def makeFilmCutout_def)
qed

text \<open>
  C10. The document \<^verbatim>\<open>genRing\<close> writes does not depend on the film format: there is one
  document that it stores under the given name, whatever the cutout width and height,
  the film width, the pin diameter and the extra-pins flag are.
\<close>

theorem genRing_independent:
  "\<exists>doc. \<forall>name cut_width cut_height film_width aligner_diam extra_pins fs.
     genRing name cut_width cut_height film_width aligner_diam extra_pins fs = Some (fs(name \<mapsto> doc))"
proof -
  obtain r where r: "makeRing = Some r"
    using makeRing_shape by blast
  obtain a where a: "makeRingAligners = Some a"
    using makeRingAligners_shape by blast
  show ?thesis
    unfolding genRing_def Let_def r a by (simp add: exI [of _ "makeHeader @ r @ a @ makeFooter"])
qed

subsection \<open>The paddle outline\<close>



end
